theory Spec2Isabelle
  imports Main "HOL-Library.Sublist"
begin

section \<open>Exceptions, effects and the world\<close>

text \<open>
  A Python exception is a value. The constructors are the classes that
  \<^verbatim>\<open>sql_chat.py\<close> can meet: \<^verbatim>\<open>KeyError\<close> carries the missing key, the others carry
  the text of the message (for the errors of the interpreter itself, the text that
  CPython 3.11 gives them). \<open>OtherException\<close> stands for every other subclass of
  \<^verbatim>\<open>Exception\<close> that a collaborator raises (a service error of the model endpoint, a
  database error); the module only ever inspects its \<^verbatim>\<open>str(e)\<close>.
\<close>

datatype error =
    KeyError string
  | IndexError string
  | RuntimeError string
  | ValueError string
  | OverflowError string
  | OtherException string

text \<open>
  \<^verbatim>\<open>repr\<close> of a string whose characters are code points below 256. The quote is the
  single one, unless the string holds a single quote and no double quote. The quote in use
  and the backslash are written after a backslash; tab, line feed and carriage return are
  written as backslash and \<^verbatim>\<open>t\<close>, \<^verbatim>\<open>n\<close>, \<^verbatim>\<open>r\<close>; any other character that is not
  printable (a control character, the no-break space, the soft hyphen) is written as
  backslash, \<^verbatim>\<open>x\<close> and two lower-case hexadecimal digits; every other character stands
  for itself.
\<close>

definition hex_digit :: "nat \<Rightarrow> char" where
  "hex_digit n = ''0123456789abcdef'' ! (n mod 16)"

definition is_printable :: "char \<Rightarrow> bool" where
  "is_printable c =
     (let n = (of_char c :: nat)
      in (32 \<le> n \<and> n < 127) \<or> (161 \<le> n \<and> n \<noteq> 173))"

definition repr_char :: "char \<Rightarrow> char \<Rightarrow> string" where
  "repr_char quote c =
     (if c = quote \<or> c = CHR 0x5C then [CHR 0x5C, c]
      else if c = CHR 0x09 then [CHR 0x5C, CHR ''t'']
      else if c = CHR 0x0A then [CHR 0x5C, CHR ''n'']
      else if c = CHR 0x0D then [CHR 0x5C, CHR ''r'']
      else if is_printable c then [c]
      else [CHR 0x5C, CHR ''x'', hex_digit (of_char c div 16), hex_digit (of_char c mod 16)])"

definition py_repr :: "string \<Rightarrow> string" where
  "py_repr s =
     (let quote = (if CHR 0x27 \<in> set s \<and> CHR 0x22 \<notin> set s then CHR 0x22 else CHR 0x27)
      in [quote] @ concat (map (repr_char quote) s) @ [quote])"

text \<open>
  \<^verbatim>\<open>str(e)\<close>. For a \<^verbatim>\<open>KeyError\<close> Python prints the \<^verbatim>\<open>repr\<close> of the key; for the
  others the message itself.
\<close>

fun str_of :: "error \<Rightarrow> string" where
  "str_of (KeyError k) = py_repr k"
| "str_of (IndexError m) = m"
| "str_of (RuntimeError m) = m"
| "str_of (ValueError m) = m"
| "str_of (OverflowError m) = m"
| "str_of (OtherException m) = m"

text \<open>
  What the functions of the module do to the outside, in the order they do it:
  \<^item> \<open>Invoke\<close>: one call of \<^verbatim>\<open>prompt_chain.invoke(inputs)\<close>;
  \<^item> \<open>LogWarning w a m\<close>: the warning \<^verbatim>\<open>Retrying in {w}s (attempt {a}/{m})\<close>;
  \<^item> \<open>Sleep w\<close>: \<^verbatim>\<open>time.sleep(w)\<close>;
  \<^item> \<open>LogError t\<close> and \<open>LogInfo t\<close>: \<^verbatim>\<open>logging.error(t)\<close> and \<^verbatim>\<open>logging.info(t)\<close>;
  \<^item> \<open>RunQuery q\<close>: \<^verbatim>\<open>db.run(q)\<close>.
\<close>

datatype event =
    Invoke
  | LogWarning int int int
  | Sleep int
  | LogError string
  | LogInfo string
  | RunQuery string

text \<open>
  The world is the state of the collaborators (the model endpoint and the database, of any
  type \<open>'s\<close>) and the trace of the effects so far. A collaborator reads and changes
  \<open>ext\<close> only; the trace is written by the functions of the module.
\<close>

record 's world =
  ext :: 's
  trace :: "event list"

definition emit :: "event list \<Rightarrow> 's world \<Rightarrow> 's world" where
  "emit es w = w\<lparr>trace := trace w @ es\<rparr>"

text \<open>The calls of the chain, the sleeps and the queries that a trace holds.\<close>

fun calls_of :: "event list \<Rightarrow> nat" where
  "calls_of [] = 0"
| "calls_of (Invoke # es) = Suc (calls_of es)"
| "calls_of (_ # es) = calls_of es"

fun sleeps_of :: "event list \<Rightarrow> int list" where
  "sleeps_of [] = []"
| "sleeps_of (Sleep w # es) = w # sleeps_of es"
| "sleeps_of (_ # es) = sleeps_of es"

fun queries_of :: "event list \<Rightarrow> string list" where
  "queries_of [] = []"
| "queries_of (RunQuery q # es) = q # queries_of es"
| "queries_of (_ # es) = queries_of es"

section \<open>The retrying invoker\<close>

text \<open>
  \<^verbatim>\<open>"ThrottlingException" in str(e)\<close>: on strings, Python's \<^verbatim>\<open>in\<close> is the test for a
  contiguous substring.
\<close>

definition is_throttling :: "error \<Rightarrow> bool" where
  "is_throttling e = sublist ''ThrottlingException'' (str_of e)"

text \<open>
  A chain is anything with \<^verbatim>\<open>invoke\<close>: from the inputs and the state of the collaborators
  it returns a value or raises, and leaves a new state in both cases.
\<close>

type_synonym ('i, 's, 'a) chain = "'i \<Rightarrow> 's \<Rightarrow> (error + 'a) \<times> 's"

text \<open>
  Writing an integer in decimal, as the f-string of the warning does for its three numbers:
  under the interpreter's default limit, a number of more than 4300 digits raises
  \<^verbatim>\<open>ValueError\<close>.
\<close>

definition int_str_ok :: "int \<Rightarrow> bool" where
  "int_str_ok n = (\<bar>n\<bar> < 10 ^ 4300)"

text \<open>
  The f-string
  \<^verbatim>\<open>f"ThrottlingException: Retrying in {wait_time}s (attempt {attempt + 1}/{max_retries})"\<close>:
  the warning to log, or the error of a number that is too long to write.
\<close>

definition retry_warning :: "int \<Rightarrow> int \<Rightarrow> int \<Rightarrow> error + event" where
  "retry_warning wait_time attempt1 max_retries =
     (if int_str_ok wait_time \<and> int_str_ok attempt1 \<and> int_str_ok max_retries
      then Inr (LogWarning wait_time attempt1 max_retries)
      else Inl (ValueError (''Exceeds the limit (4300 digits) for integer string conversion; '' @
                         ''use sys.set_int_max_str_digits() to increase the limit'')))"

text \<open>
  \<^verbatim>\<open>time.sleep(secs)\<close> for an integer: \<open>None\<close> when it sleeps and returns, the error
  when it raises. The length is first turned into nanoseconds in a signed 64-bit number,
  which raises \<^verbatim>\<open>OverflowError\<close> beyond 9223372036 seconds on either side; then a negative
  length raises \<^verbatim>\<open>ValueError\<close>.
\<close>

definition time_sleep :: "int \<Rightarrow> error option" where
  "time_sleep secs =
     (if secs < - 9223372036 \<or> 9223372036 < secs
      then Some (OverflowError ''timestamp too large to convert to C _PyTime_t'')
      else if secs < 0 then Some (ValueError ''sleep length must be non-negative'')
      else None)"

text \<open>
  The loop \<^verbatim>\<open>for attempt in range(max_retries)\<close>, by recursion on the number of
  iterations that remain; \<open>attempt\<close> and \<open>wait_time\<close> are the variables of the loop. With
  no iteration left, the statement after the loop raises \<^verbatim>\<open>RuntimeError\<close>. An error of
  the f-string or of \<^verbatim>\<open>time.sleep\<close>, raised inside the handler, leaves the function.
\<close>

fun retry_loop ::
  "('i, 's, 'a) chain \<Rightarrow> 'i \<Rightarrow> int \<Rightarrow> nat \<Rightarrow> int \<Rightarrow> int \<Rightarrow> 's world
     \<Rightarrow> (error + 'a) \<times> 's world" where
  "retry_loop prompt_chain inputs max_retries 0 attempt wait_time w =
     (Inl (RuntimeError ''Exceeded maximum retries while invoking Bedrock.''), w)"
| "retry_loop prompt_chain inputs max_retries (Suc n) attempt wait_time w =
     (case prompt_chain inputs (ext w) of
        (Inr v, s') \<Rightarrow> (Inr v, emit [Invoke] (w\<lparr>ext := s'\<rparr>))
      | (Inl e, s') \<Rightarrow>
          (if is_throttling e then
             (case retry_warning wait_time (attempt + 1) max_retries of
                Inl err \<Rightarrow> (Inl err, emit [Invoke] (w\<lparr>ext := s'\<rparr>))
              | Inr warning \<Rightarrow>
                  (let w1 = emit [Invoke, warning] (w\<lparr>ext := s'\<rparr>)
                   in case time_sleep wait_time of
                        Some err \<Rightarrow> (Inl err, w1)
                      | None \<Rightarrow>
                          retry_loop prompt_chain inputs max_retries n (attempt + 1)
                            (wait_time * 2) (emit [Sleep wait_time] w1)))
           else
             (Inl e, emit [Invoke, LogError (''Error invoking Bedrock: '' @ str_of e)]
                       (w\<lparr>ext := s'\<rparr>))))"

text \<open>\<^verbatim>\<open>range(max_retries)\<close> has \<open>nat max_retries\<close> elements: none when it is not positive.\<close>

definition invoke_bedrock_with_retry ::
  "('i, 's, 'a) chain \<Rightarrow> 'i \<Rightarrow> int \<Rightarrow> int \<Rightarrow> 's world \<Rightarrow> (error + 'a) \<times> 's world" where
  "invoke_bedrock_with_retry prompt_chain inputs max_retries initial_wait w =
     retry_loop prompt_chain inputs max_retries (nat max_retries) 0 initial_wait w"

section \<open>Strings\<close>

text \<open>
  A string is a list of characters, each a code point below 256. \<open>is_space\<close> is
  \<^verbatim>\<open>str.isspace\<close> on that range, and \<open>strip\<close> is \<^verbatim>\<open>str.strip()\<close>.
\<close>

definition is_space :: "char \<Rightarrow> bool" where
  "is_space c =
     (c \<in> set [CHR 0x09, CHR 0x0A, CHR 0x0B, CHR 0x0C, CHR 0x0D, CHR 0x1C, CHR 0x1D,
                CHR 0x1E, CHR 0x1F, CHR 0x20, CHR 0x85, CHR 0xA0])"

definition strip :: "string \<Rightarrow> string" where
  "strip s = rev (dropWhile is_space (rev (dropWhile is_space s)))"

text \<open>
  \<^verbatim>\<open>s.split(sep)\<close>: the text is cut at each occurrence of the separator, found from left to
  right and without overlap; \<open>cur\<close> is the piece being read. An empty separator raises
  \<^verbatim>\<open>ValueError\<close>.
\<close>

fun split_from :: "string \<Rightarrow> string \<Rightarrow> string \<Rightarrow> string list" where
  "split_from sep cur [] = [cur]"
| "split_from sep cur (c # cs) =
     (if sep \<noteq> [] \<and> prefix sep (c # cs)
      then cur # split_from sep [] (drop (length sep) (c # cs))
      else split_from sep (cur @ [c]) cs)"

definition str_split :: "string \<Rightarrow> string \<Rightarrow> error + string list" where
  "str_split s sep =
     (if sep = [] then Inl (ValueError ''empty separator'') else Inr (split_from sep [] s))"

text \<open>\<^verbatim>\<open>xs[i]\<close> for an index that is not negative: out of range it raises \<^verbatim>\<open>IndexError\<close>.\<close>

definition list_index :: "'a list \<Rightarrow> nat \<Rightarrow> error + 'a" where
  "list_index xs i =
     (if i < length xs then Inr (xs ! i) else Inl (IndexError ''list index out of range''))"

text \<open>
  The cleanup of the model's answer, the last three lines of \<^verbatim>\<open>generate_sql\<close>:
  \<^verbatim>\<open>
  if 'SQL Query:' in generated_sql:
      generated_sql = generated_sql.split('SQL Query:')[1].strip()
  return generated_sql
  \<close>
\<close>

definition cleanup :: "string \<Rightarrow> error + string" where
  "cleanup generated_sql =
     (if sublist ''SQL Query:'' generated_sql then
        (case str_split generated_sql ''SQL Query:'' of
           Inl e \<Rightarrow> Inl e
         | Inr parts \<Rightarrow>
             (case list_index parts 1 of
                Inl e \<Rightarrow> Inl e
              | Inr part \<Rightarrow> Inr (strip part)))
      else Inr generated_sql)"

section \<open>The template registry\<close>

text \<open>
  The four values of the dictionary \<^verbatim>\<open>templates\<close>, character for character; each line of
  the triple-quoted text is one literal, with its line feed.
\<close>

definition template_low :: string where
  "template_low =
     '' \<newline>'' @
     ''    Based on the table schema below, write a plain SQL query that would answer the user's question.\<newline>'' @
     ''    {schema}\<newline>'' @
     ''\<newline>'' @
     ''    Question: Given the SQL schema, return the job_ids from the job table where at least 3 of the provided skills {skills} Use the following format:\<newline>'' @
     ''    Example Query: SELECT j.job_id FROM job j JOIN application a ON j.job_id = a.job_id JOIN jobseeker js ON a.job_seeker_id = js.job_seeker_id WHERE string_to_array(js.skills, ',') && ARRAY['Python', 'Java', 'C', 'JavaScript', 'Spring Boot', 'Flask', 'TensorFlow', 'Bootstrap', 'ReactJS', 'Scikit-learn', 'Pandas', 'NumPy', 'Git', 'GitHub', 'JIRA', 'Photoshop', 'Cloud Technologies', 'Virtual and Augmented Reality', 'Blockchain', 'Prompt Engineering', 'IoT', 'Sports Analytics'];\<newline>'' @
     ''    Generate a very similar query with the given {skills} replacing the placeholder values. Note that string_to_array(js.skills, ',') part is Must needed because It need to convert to array (without any explanations or formatting make a cumpulsory single line query):\<newline>'' @
     ''    ''"

definition template_medium :: string where
  "template_medium =
     '' \<newline>'' @
     ''    Based on the table schema below, write a plain SQL query that would answer the user's question.\<newline>'' @
     ''    {schema}\<newline>'' @
     ''\<newline>'' @
     ''    Question: According to the SQL schema, I need to return the job_ids from the job table where at least 3 of the provided skills {skills} match with the job's skills.\<newline>'' @
     ''\<newline>'' @
     ''    Postgres SQL Query (without any explanations or formatting make a single line query):\<newline>'' @
     ''    ''"

definition template_intermediate :: string where
  "template_intermediate =
     '' \<newline>'' @
     ''    Based on the table schema below, write a plain SQL query that would answer the user's question.\<newline>'' @
     ''    {schema}\<newline>'' @
     ''\<newline>'' @
     ''    Question: Given the SQL schema, return the job_ids from the job table where at least 3 of the provided skills {skills} and the provided experience {experience} match with the job's skills and experience column. Use the following format:\<newline>'' @
     ''    Example Query: SELECT j.job_id FROM job j JOIN application a ON j.job_id = a.job_id JOIN jobseeker js ON a.job_seeker_id = js.job_seeker_id WHERE string_to_array(js.skills, ',') && ARRAY['Python', 'Java', 'C', 'JavaScript', 'Spring Boot', 'Flask', 'TensorFlow', 'Bootstrap', 'ReactJS', 'Scikit-learn', 'Pandas', 'NumPy', 'Git', 'GitHub', 'JIRA', 'Photoshop', 'Cloud Technologies', 'Virtual and Augmented Reality', 'Blockchain', 'Prompt Engineering', 'IoT', 'Sports Analytics'] AND js.experience LIKE '%2 Year%';\<newline>'' @
     ''    Generate a very similar query with the given {skills} and {experience} replacing the placeholder values. Note that string_to_array(js.skills, ',') part is Must needed because It need to convert to array (without any explanations or formatting make a cumpulsory single line query):\<newline>'' @
     ''    ''"

definition template_high :: string where
  "template_high =
     '' \<newline>'' @
     ''    Based on the table schema below, write a plain SQL query that would answer the user's question.\<newline>'' @
     ''    {schema}\<newline>'' @
     ''\<newline>'' @
     ''    Question: According to the SQL schema, I need to return the job_ids from the job table where at least 3 of the provided skills {skills} and the provided experience {experience} match with the job's skills and experience column.\<newline>'' @
     ''\<newline>'' @
     ''    SQL Query (without any explanations or formatting make a single line query):\<newline>'' @
     ''    ''"

text \<open>\<^verbatim>\<open>templates[template_name]\<close> is a lookup in this map; a missing key raises \<^verbatim>\<open>KeyError\<close>.\<close>

definition templates :: "string \<rightharpoonup> string" where
  "templates = map_of
     [(''low'', template_low),
      (''medium'', template_medium),
      (''intermediate'', template_intermediate),
      (''high'', template_high)]"

section \<open>Prompt assembly and the pipeline\<close>

text \<open>
  Modelled from the spec: the prompt formatter, \<^verbatim>\<open>ChatPromptTemplate.from_template\<close> of the
  langchain library, whose code is not among the sources of the repository. The spec's
  \<^verbatim>\<open>assemble\<close> substitutes
  \<^verbatim>\<open>{schema}\<close>, \<^verbatim>\<open>{skills}\<close> and \<^verbatim>\<open>{experience}\<close> with the given values as literal text
  and fails when a value that the template needs is absent. Here a field \<^verbatim>\<open>{name}\<close> is
  replaced by the value of \<open>name\<close>, which is not read again for fields; a name without a value
  raises \<^verbatim>\<open>KeyError\<close>, the class the library uses for it. The second argument of
  \<open>format_fields\<close> is the name of the field being read, if any. Only plain fields are
  covered, the ones the four templates use: no doubled braces, no conversions.
\<close>

fun format_fields ::
  "(string \<rightharpoonup> string) \<Rightarrow> string option \<Rightarrow> string \<Rightarrow> error + string" where
  "format_fields vars None [] = Inr []"
| "format_fields vars (Some name) [] = Inl (ValueError ''expected } before end of string'')"
| "format_fields vars None (c # cs) =
     (if c = CHR ''{'' then format_fields vars (Some []) cs
      else (case format_fields vars None cs of
              Inl e \<Rightarrow> Inl e
            | Inr out \<Rightarrow> Inr (c # out)))"
| "format_fields vars (Some name) (c # cs) =
     (if c = CHR ''}'' then
        (case vars name of
           None \<Rightarrow> Inl (KeyError name)
         | Some v \<Rightarrow>
             (case format_fields vars None cs of
                Inl e \<Rightarrow> Inl e
              | Inr out \<Rightarrow> Inr (v @ out)))
      else format_fields vars (Some (name @ [c])) cs)"

definition format_template :: "string \<Rightarrow> (string \<rightharpoonup> string) \<Rightarrow> error + string" where
  "format_template template vars = format_fields vars None template"

text \<open>
  The collaborators of the module, which are built outside it: the database
  (\<^verbatim>\<open>db.get_table_info()\<close> and \<^verbatim>\<open>db.run(query)\<close>) and the language model followed by
  the parser of its answer (\<^verbatim>\<open>llm | StrOutputParser()\<close>). Each may raise, and each may
  change the state of the outside.
\<close>

record ('s, 'r) collaborators =
  db_get_table_info :: "'s \<Rightarrow> (error + string) \<times> 's"
  llm_invoke :: "string \<Rightarrow> 's \<Rightarrow> (error + string) \<times> 's"
  db_run :: "string \<Rightarrow> 's \<Rightarrow> (error + 'r) \<times> 's"

definition get_schema :: "('s, 'r) collaborators \<Rightarrow> 's \<Rightarrow> (error + string) \<times> 's" where
  "get_schema env s = db_get_table_info env s"

text \<open>
  \<^verbatim>\<open>RunnablePassthrough.assign(schema=get_schema) | prompt | llm | StrOutputParser()\<close>:
  the schema is fetched and added to the inputs, the template is filled, and the prompt goes
  to the model. The first stage that raises ends the chain.
\<close>

definition sql_chain ::
  "('s, 'r) collaborators \<Rightarrow> string \<Rightarrow> (string \<rightharpoonup> string, 's, string) chain" where
  "sql_chain env template inputs s =
     (case get_schema env s of
        (Inl e, s1) \<Rightarrow> (Inl e, s1)
      | (Inr schema, s1) \<Rightarrow>
          (case format_template template (inputs(''schema'' \<mapsto> schema)) of
             Inl e \<Rightarrow> (Inl e, s1)
           | Inr prompt \<Rightarrow> llm_invoke env prompt s1))"

text \<open>
  \<^verbatim>\<open>inputs = {"skills": skills}\<close>, then \<^verbatim>\<open>if experience: inputs["experience"] = experience\<close>:
  \<^verbatim>\<open>None\<close> and the empty string are both false.
\<close>

definition make_inputs :: "string \<Rightarrow> string option \<Rightarrow> (string \<rightharpoonup> string)" where
  "make_inputs skills experience =
     (case experience of
        None \<Rightarrow> [''skills'' \<mapsto> skills]
      | Some x \<Rightarrow>
          if x \<noteq> [] then [''skills'' \<mapsto> skills, ''experience'' \<mapsto> x]
          else [''skills'' \<mapsto> skills])"

definition generate_sql ::
  "('s, 'r) collaborators \<Rightarrow> string \<Rightarrow> string \<Rightarrow> string option \<Rightarrow> 's world
     \<Rightarrow> (error + string) \<times> 's world" where
  "generate_sql env template_name skills experience w =
     (case templates template_name of
        None \<Rightarrow> (Inl (KeyError template_name), w)
      | Some template \<Rightarrow>
          (case invoke_bedrock_with_retry (sql_chain env template)
                  (make_inputs skills experience) 5 1 w of
             (Inl e, w1) \<Rightarrow> (Inl e, w1)
           | (Inr generated_sql, w1) \<Rightarrow>
               (case cleanup generated_sql of
                  Inl e \<Rightarrow> (Inl e, w1)
                | Inr sql \<Rightarrow> (Inr sql, w1))))"

definition run_query ::
  "('s, 'r) collaborators \<Rightarrow> string \<Rightarrow> 's world \<Rightarrow> (error + 'r) \<times> 's world" where
  "run_query env query w =
     (case db_run env query (ext w) of
        (r, s') \<Rightarrow> (r, emit [RunQuery query] (w\<lparr>ext := s'\<rparr>)))"

text \<open>The four functions of the module's surface, one for each tier.\<close>

definition return_low_matched_jobs ::
  "('s, 'r) collaborators \<Rightarrow> string \<Rightarrow> 's world \<Rightarrow> (error + 'r) \<times> 's world" where
  "return_low_matched_jobs env skills w =
     (case generate_sql env ''low'' skills None w of
        (Inl e, w1) \<Rightarrow> (Inl e, w1)
      | (Inr sql_query, w1) \<Rightarrow>
          run_query env sql_query (emit [LogInfo (''Low matched query: '' @ sql_query)] w1))"

definition return_medium_matched_jobs ::
  "('s, 'r) collaborators \<Rightarrow> string \<Rightarrow> 's world \<Rightarrow> (error + 'r) \<times> 's world" where
  "return_medium_matched_jobs env skills w =
     (case generate_sql env ''medium'' skills None w of
        (Inl e, w1) \<Rightarrow> (Inl e, w1)
      | (Inr sql_query, w1) \<Rightarrow>
          run_query env sql_query (emit [LogInfo (''Medium matched query: '' @ sql_query)] w1))"

definition return_intermediate_matched_jobs ::
  "('s, 'r) collaborators \<Rightarrow> string \<Rightarrow> string option \<Rightarrow> 's world
     \<Rightarrow> (error + 'r) \<times> 's world" where
  "return_intermediate_matched_jobs env skills experience w =
     (case generate_sql env ''intermediate'' skills experience w of
        (Inl e, w1) \<Rightarrow> (Inl e, w1)
      | (Inr sql_query, w1) \<Rightarrow>
          run_query env sql_query
            (emit [LogInfo (''Intermediate matched query: '' @ sql_query)] w1))"

definition return_high_matched_jobs ::
  "('s, 'r) collaborators \<Rightarrow> string \<Rightarrow> string option \<Rightarrow> 's world
     \<Rightarrow> (error + 'r) \<times> 's world" where
  "return_high_matched_jobs env skills experience w =
     (case generate_sql env ''high'' skills experience w of
        (Inl e, w1) \<Rightarrow> (Inl e, w1)
      | (Inr sql_query, w1) \<Rightarrow>
          run_query env sql_query (emit [LogInfo (''High matched query: '' @ sql_query)] w1))"

section \<open>Vocabulary of the properties\<close>

text \<open>
  \<open>throttled_calls c i n s\<close> is the state of the collaborators after \<open>n\<close> calls of the
  chain from the state \<open>s\<close> when each of them raises a throttling error, and \<open>None\<close> when
  one of them does not.
\<close>

fun throttled_calls :: "('i, 's, 'a) chain \<Rightarrow> 'i \<Rightarrow> nat \<Rightarrow> 's \<Rightarrow> 's option" where
  "throttled_calls c i 0 s = Some s"
| "throttled_calls c i (Suc n) s =
     (case c i s of
        (Inl e, s') \<Rightarrow> if is_throttling e then throttled_calls c i n s' else None
      | (Inr v, s') \<Rightarrow> None)"

text \<open>
  The effects of throttled call number \<open>k\<close> (from 0) of a loop that starts at \<open>attempt\<close>
  with \<open>wait_time\<close>: the call, the warning and a sleep of \<open>2 ^ k * wait_time\<close>.
\<close>

definition backoff_events :: "int \<Rightarrow> int \<Rightarrow> int \<Rightarrow> nat \<Rightarrow> event list" where
  "backoff_events max_retries attempt wait_time k =
     [Invoke, LogWarning (2 ^ k * wait_time) (attempt + int k + 1) max_retries,
      Sleep (2 ^ k * wait_time)]"

text \<open>
  The text before and the text after the first occurrence of a separator: all of the text
  and nothing when it does not occur.
\<close>

fun before_first :: "string \<Rightarrow> string \<Rightarrow> string" where
  "before_first sep [] = []"
| "before_first sep (c # cs) = (if prefix sep (c # cs) then [] else c # before_first sep cs)"

fun after_first :: "string \<Rightarrow> string \<Rightarrow> string" where
  "after_first sep [] = []"
| "after_first sep (c # cs) =
     (if prefix sep (c # cs) then drop (length sep) (c # cs) else after_first sep cs)"


definition always_throttling :: "(unit, nat, string) chain" where
  "always_throttling inputs k =
     (Inl (OtherException ''ThrottlingException: Too many requests''), Suc k)"

definition access_denied :: "(unit, nat, string) chain" where
  "access_denied inputs k = (Inl (OtherException ''AccessDeniedException''), Suc k)"

definition fixed_env :: "(nat, nat list) collaborators" where
  "fixed_env =
     \<lparr>db_get_table_info = (\<lambda>k. (Inr ''CREATE TABLE job (job_id INTEGER)'', Suc k)),
      llm_invoke = (\<lambda>prompt k. (Inr ''SQL Query: SELECT j.job_id FROM job j;'', Suc k)),
      db_run = (\<lambda>query k.
        (if query = ''SELECT j.job_id FROM job j;'' then Inr [3, 7]
         else Inl (OtherException ''syntax error''), Suc k))\<rparr>"

section \<open>The retry loop\<close>





text \<open>The events of the throttled calls \<open>0, \<dots>, N\<close> are those of call 0, then those of the
  \<open>N\<close> first calls of a loop one attempt further with the wait doubled.\<close>

lemma concat_backoff_Suc:
  "concat (map (backoff_events m a wt) [0..<Suc N]) =
     backoff_events m a wt 0 @ concat (map (backoff_events m (a + 1) (wt * 2)) [0..<N])"
proof -
  have "[0..<Suc N] = 0 # map Suc [0..<N]"
    by (simp only: map_Suc_upt upt_conv_Cons zero_less_Suc)
  moreover have "backoff_events m a wt (Suc k) = backoff_events m (a + 1) (wt * 2) k" for k
    by (simp add: backoff_events_def algebra_simps)
  ultimately show ?thesis
    by (simp add: comp_def)
qed

text \<open>Numbers of at most twenty digits can be written, and so can a number that is not
  larger than one that can.\<close>

lemma int_str_ok_small:
  assumes "\<bar>n\<bar> < 100000000000000000000"
  shows "int_str_ok n"
proof -
  have le: "(10::int) ^ 20 \<le> 10 ^ 4300"
    by (rule power_increasing) simp_all
  have "\<bar>n\<bar> < 10 ^ 20"
    using assms by simp
  then have "\<bar>n\<bar> < 10 ^ 4300"
    using le by (rule less_le_trans)
  then show ?thesis
    unfolding int_str_ok_def .
qed


text \<open>The lengths that \<^verbatim>\<open>time.sleep\<close> accepts.\<close>

lemma time_sleep_None: "time_sleep secs = None \<longleftrightarrow> 0 \<le> secs \<and> secs \<le> 9223372036"
  by (auto simp: time_sleep_def)

lemma time_sleep_str_ok: "time_sleep secs = None \<Longrightarrow> int_str_ok secs"
  by (rule int_str_ok_small) (simp add: time_sleep_None)

text \<open>\<open>N\<close> throttled calls take the loop \<open>N\<close> iterations further, with the wait doubled
  \<open>N\<close> times, whatever follows, as long as each warning can be written and each sleep is
  accepted.\<close>

lemma retry_loop_throttled:
  assumes "throttled_calls c i N (ext w) = Some sN"
    and "N \<le> n"
    and "\<forall>k<N. time_sleep (2 ^ k * wt) = None"
    and "\<forall>k<N. int_str_ok (a + int k + 1)"
    and "N = 0 \<or> int_str_ok m"
  shows "retry_loop c i m n a wt w =
           retry_loop c i m (n - N) (a + int N) (2 ^ N * wt)
             (emit (concat (map (backoff_events m a wt) [0..<N])) (w\<lparr>ext := sN\<rparr>))"
  using assms
proof (induction N arbitrary: n a wt w)
  case 0
  then have "w\<lparr>ext := sN\<rparr> = w" by simp
  then show ?case by (simp add: emit_def)
next
  case (Suc N)
  from Suc.prems(2) obtain n' where n: "n = Suc n'" and le: "N \<le> n'"
    by (cases n) auto
  from Suc.prems(1) obtain e s' where
    call: "c i (ext w) = (Inl e, s')" and thr: "is_throttling e"
    and rest: "throttled_calls c i N s' = Some sN"
    by (auto split: prod.splits sum.splits if_splits)
  have "time_sleep (2 ^ 0 * wt) = None"
    using Suc.prems(3) by blast
  then have sl: "time_sleep wt = None"
    by simp
  have "int_str_ok (a + int 0 + 1)"
    using Suc.prems(4) by blast
  then have a_ok: "int_str_ok (a + 1)"
    by simp
  have m_ok: "int_str_ok m"
    using Suc.prems(5) by simp
  have warn: "retry_warning wt (a + 1) m = Inr (LogWarning wt (a + 1) m)"
    by (simp add: retry_warning_def time_sleep_str_ok [OF sl] a_ok m_ok)
  let ?w1 = "emit [Sleep wt] (emit [Invoke, LogWarning wt (a + 1) m] (w\<lparr>ext := s'\<rparr>))"
  have step: "retry_loop c i m n a wt w = retry_loop c i m n' (a + 1) (wt * 2) ?w1"
    using call thr warn sl by (simp add: n Let_def)
  have th: "throttled_calls c i N (ext ?w1) = Some sN"
    using rest by (simp add: emit_def)
  have sl': "\<forall>k<N. time_sleep (2 ^ k * (wt * 2)) = None"
  proof (intro allI impI)
    fix k assume "k < N"
    then have "time_sleep (2 ^ Suc k * wt) = None"
      using Suc.prems(3) by (simp only: Suc_less_eq)
    moreover have "2 ^ Suc k * wt = 2 ^ k * (wt * 2)"
      by simp
    ultimately show "time_sleep (2 ^ k * (wt * 2)) = None"
      by (simp only:)
  qed
  have a': "\<forall>k<N. int_str_ok (a + 1 + int k + 1)"
  proof (intro allI impI)
    fix k assume "k < N"
    then have "int_str_ok (a + int (Suc k) + 1)"
      using Suc.prems(4) by (simp only: Suc_less_eq)
    moreover have "a + int (Suc k) + 1 = a + 1 + int k + 1"
      by simp
    ultimately show "int_str_ok (a + 1 + int k + 1)"
      by (simp only:)
  qed
  have m': "N = 0 \<or> int_str_ok m"
    using m_ok by simp
  have "retry_loop c i m n' (a + 1) (wt * 2) ?w1 =
          retry_loop c i m (n' - N) (a + 1 + int N) (2 ^ N * (wt * 2))
            (emit (concat (map (backoff_events m (a + 1) (wt * 2)) [0..<N]))
               (?w1\<lparr>ext := sN\<rparr>))"
    by (rule Suc.IH [OF th le sl' a' m'])
  also have "emit (concat (map (backoff_events m (a + 1) (wt * 2)) [0..<N])) (?w1\<lparr>ext := sN\<rparr>)
     = emit (concat (map (backoff_events m a wt) [0..<Suc N])) (w\<lparr>ext := sN\<rparr>)"
    unfolding concat_backoff_Suc by (simp add: emit_def backoff_events_def)
  finally show ?case
    using step by (simp add: n algebra_simps)
qed

text \<open>When every iteration is throttled, the loop ends in the error of exhausted retries,
  after one call, one warning and one sleep for each iteration.\<close>

lemma retry_loop_exhausted:
  assumes "throttled_calls c i n (ext w) = Some sN"
    and "\<forall>k<n. time_sleep (2 ^ k * wt) = None"
    and "\<forall>k<n. int_str_ok (a + int k + 1)"
    and "n = 0 \<or> int_str_ok m"
  shows "retry_loop c i m n a wt w =
           (Inl (RuntimeError ''Exceeded maximum retries while invoking Bedrock.''),
            emit (concat (map (backoff_events m a wt) [0..<n])) (w\<lparr>ext := sN\<rparr>))"
  using retry_loop_throttled [OF assms(1) order_refl assms(2,3,4)] by simp

lemma invoke_reraises:
  assumes "prompt_chain inputs (ext w) = (Inl e, s')"
    and "\<not> is_throttling e"
    and "0 < max_retries"
  shows "invoke_bedrock_with_retry prompt_chain inputs max_retries initial_wait w =
           (Inl e, emit [Invoke, LogError (''Error invoking Bedrock: '' @ str_of e)]
                     (w\<lparr>ext := s'\<rparr>))"
proof -
  from assms(3) obtain n where "nat max_retries = Suc n"
    by (cases "nat max_retries") auto
  then show ?thesis
    using assms(1,2) by (simp add: invoke_bedrock_with_retry_def)
qed

lemma invoke_first_success:
  assumes "prompt_chain inputs (ext w) = (Inr v, s')"
    and "0 < max_retries"
  shows "invoke_bedrock_with_retry prompt_chain inputs max_retries initial_wait w =
           (Inr v, emit [Invoke] (w\<lparr>ext := s'\<rparr>))"
proof -
  from assms(2) obtain n where "nat max_retries = Suc n"
    by (cases "nat max_retries") auto
  then show ?thesis
    using assms(1) by (simp add: invoke_bedrock_with_retry_def)
qed




text \<open>
  C2. With a chain that is throttled at every call, \<^verbatim>\<open>max_retries = 5\<close> and
  \<^verbatim>\<open>initial_wait = 1\<close>, the chain is called five times and the call ends in the
  \<^verbatim>\<open>RuntimeError\<close> of exhausted retries. Each of the five throttled calls is followed by a
  sleep, the fifth one too: the sleeps are 1, 2, 4, 8 and then 16 seconds, the last of them
  after the final attempt and before the error.
\<close>

theorem invoke_always_throttling_five:
  "invoke_bedrock_with_retry always_throttling () 5 1 \<lparr>ext = 0, trace = []\<rparr> =
     (Inl (RuntimeError ''Exceeded maximum retries while invoking Bedrock.''),
      \<lparr>ext = 5,
       trace = [Invoke, LogWarning 1 1 5, Sleep 1, Invoke, LogWarning 2 2 5, Sleep 2,
                Invoke, LogWarning 4 3 5, Sleep 4, Invoke, LogWarning 8 4 5, Sleep 8,
                Invoke, LogWarning 16 5 5, Sleep 16]\<rparr>) \<and>
   calls_of (trace (snd (invoke_bedrock_with_retry always_throttling () 5 1
                            \<lparr>ext = 0, trace = []\<rparr>))) = 5 \<and>
   sleeps_of (trace (snd (invoke_bedrock_with_retry always_throttling () 5 1
                             \<lparr>ext = 0, trace = []\<rparr>))) = [1, 2, 4, 8, 16]"
  by (simp add: invoke_bedrock_with_retry_def always_throttling_def is_throttling_def
      eval_nat_numeral emit_def retry_warning_def time_sleep_def int_str_ok_small)

text \<open>
  C3. When the first call of the chain raises an error whose text does not hold the throttling
  marker (and \<^verbatim>\<open>max_retries\<close> allows a first call), \<^verbatim>\<open>invoke_bedrock_with_retry\<close> raises
  that same error after this one call: the error is logged, there is no sleep and no second
  call.
\<close>

theorem invoke_nonthrottling_error:
  assumes "prompt_chain inputs (ext w) = (Inl e, s')"
    and "\<not> is_throttling e"
    and "0 < max_retries"
  shows "let tr = [Invoke, LogError (''Error invoking Bedrock: '' @ str_of e)]
         in invoke_bedrock_with_retry prompt_chain inputs max_retries initial_wait w =
              (Inl e, emit tr (w\<lparr>ext := s'\<rparr>)) \<and>
            calls_of tr = 1 \<and> sleeps_of tr = []"
  using invoke_reraises [where prompt_chain = prompt_chain and inputs = inputs and w = w, OF assms]
  by (simp add: Let_def)

theorem invoke_nonthrottling_error_witness:
  "access_denied () (ext \<lparr>ext = 0, trace = []\<rparr>) = (Inl (OtherException ''AccessDeniedException''), 1) \<and>
   \<not> is_throttling (OtherException ''AccessDeniedException'') \<and>
   (0::int) < 5 \<and>
   invoke_bedrock_with_retry access_denied () 5 1 \<lparr>ext = 0, trace = []\<rparr> =
     (Inl (OtherException ''AccessDeniedException''),
      \<lparr>ext = 1,
       trace = [Invoke, LogError ''Error invoking Bedrock: AccessDeniedException'']\<rparr>)"
proof -
  have h1: "access_denied () (ext \<lparr>ext = 0::nat, trace = []\<rparr>) =
      (Inl (OtherException ''AccessDeniedException''), 1)"
    by (simp add: access_denied_def)
  have h2: "\<not> is_throttling (OtherException ''AccessDeniedException'')"
    by (simp add: is_throttling_def sublist_code)
  have h3: "(0::int) < 5" by simp
  show ?thesis
    using h1 h2
      invoke_nonthrottling_error [where prompt_chain = access_denied and inputs = "()"
        and w = "\<lparr>ext = 0, trace = []\<rparr>" and initial_wait = 1, OF h1 h2 h3]
    by (simp add: Let_def emit_def)
qed

text \<open>
  C10. With \<^verbatim>\<open>max_retries = 0\<close> the body of the loop is never entered: whatever the chain
  and the inputs, the chain is not called, nothing is logged or slept, and the call fails at
  once with the \<^verbatim>\<open>RuntimeError\<close> of exhausted retries.
\<close>

theorem invoke_zero_retries:
  "invoke_bedrock_with_retry prompt_chain inputs 0 initial_wait w =
     (Inl (RuntimeError ''Exceeded maximum retries while invoking Bedrock.''), w)"
  by (simp add: invoke_bedrock_with_retry_def)

section \<open>The cleanup of the answer\<close>

lemma before_first_no_occurrence: "\<not> sublist sep s \<Longrightarrow> before_first sep s = s"
  by (induction s) (auto simp: sublist_Cons_right)

text \<open>\<open>before_first\<close> and \<open>after_first\<close> cut the text around an occurrence of the
  separator.\<close>

lemma first_occurrence_split:
  "sublist sep s \<Longrightarrow> s = before_first sep s @ sep @ after_first sep s"
  by (induction s) (auto simp: sublist_Cons_right prefix_def)

text \<open>No occurrence of the separator begins before the cut: the cut is at the first one.\<close>

lemma before_first_earliest:
  assumes "sep \<noteq> []" and "sublist sep s"
  shows "\<not> sublist sep (before_first sep s @ butlast sep)"
  using assms(2)
proof (induction s)
  case Nil
  then show ?case using assms(1) by simp
next
  case (Cons c cs)
  show ?case
  proof (cases "prefix sep (c # cs)")
    case True
    have "length (butlast sep) < length sep"
      using assms(1) by simp
    then have "\<not> sublist sep (butlast sep)"
      using sublist_length_le [of sep "butlast sep"] by auto
    with True show ?thesis by simp
  next
    case False
    with Cons.prems have sub: "sublist sep cs"
      by (simp add: sublist_Cons_right)
    have cs: "c # cs = (c # before_first sep cs @ butlast sep) @ [last sep] @ after_first sep cs"
      using first_occurrence_split [OF sub] assms(1)
      by (metis append.assoc append_Cons append_butlast_last_id append_Nil)
    have "\<not> prefix sep (c # before_first sep cs @ butlast sep)"
    proof
      assume "prefix sep (c # before_first sep cs @ butlast sep)"
      then have "prefix sep
          ((c # before_first sep cs @ butlast sep) @ [last sep] @ after_first sep cs)"
        by (rule prefix_prefix)
      with cs False show False by simp
    qed
    with False Cons.IH [OF sub] show ?thesis
      by (simp add: sublist_Cons_right)
  qed
qed

text \<open>The first piece of a split is the text before the first separator, and the other
  pieces are the split of the text after it.\<close>

lemma split_from_first:
  "sep \<noteq> [] \<Longrightarrow>
   split_from sep cur s =
     (if sublist sep s
      then (cur @ before_first sep s) # split_from sep [] (after_first sep s)
      else [cur @ s])"
proof (induction s arbitrary: cur)
  case Nil
  then show ?case by simp
next
  case (Cons c cs)
  show ?case
  proof (cases "prefix sep (c # cs)")
    case True
    then show ?thesis using Cons.prems by simp
  next
    case False
    then show ?thesis
      using Cons.IH [OF Cons.prems, of "cur @ [c]"] by (simp add: sublist_Cons_right)
  qed
qed

lemma split_from_head:
  "sep \<noteq> [] \<Longrightarrow> \<exists>ps. split_from sep [] s = before_first sep s # ps"
  by (simp add: split_from_first [of sep "[]" s] before_first_no_occurrence)

lemma cleanup_with_marker:
  assumes "sublist ''SQL Query:'' raw"
  shows "cleanup raw =
           Inr (strip (before_first ''SQL Query:'' (after_first ''SQL Query:'' raw)))"
proof -
  let ?m = "''SQL Query:''"
  have ne: "?m \<noteq> []" by simp
  obtain ps where
    ps: "split_from ?m [] (after_first ?m raw) = before_first ?m (after_first ?m raw) # ps"
    using split_from_head [OF ne] by blast
  have "split_from ?m [] raw =
          before_first ?m raw # before_first ?m (after_first ?m raw) # ps"
    using split_from_first [OF ne, of "[]" raw] assms ps by simp
  then show ?thesis
    using assms by (simp add: cleanup_def str_split_def list_index_def)
qed

lemma cleanup_without_marker:
  "\<not> sublist ''SQL Query:'' raw \<Longrightarrow> cleanup raw = Inr raw"
  by (simp add: cleanup_def)

text \<open>The cleanup never raises: neither the split nor the index can fail under its test.\<close>

lemma cleanup_total: "\<exists>sql. cleanup raw = Inr sql"
  by (cases "sublist ''SQL Query:'' raw")
    (simp_all add: cleanup_with_marker cleanup_without_marker)

text \<open>With a single marker the result is all of the text after it, trimmed.\<close>

lemma cleanup_single_marker:
  assumes "sublist ''SQL Query:'' raw"
    and "\<not> sublist ''SQL Query:'' (after_first ''SQL Query:'' raw)"
  shows "cleanup raw = Inr (strip (after_first ''SQL Query:'' raw))"
  by (simp add: cleanup_with_marker [OF assms(1)] before_first_no_occurrence [OF assms(2)])

text \<open>
  C4, as stated, fails: for a text with two markers the cleanup does not return everything
  after the first marker. \<^verbatim>\<open>split\<close> cuts at every marker and the code takes piece 1,
  which ends where the second marker begins.
\<close>

theorem cleanup_after_first_counterexample:
  "sublist ''SQL Query:'' ''SQL Query: SELECT 1; SQL Query: SELECT 2;'' \<and>
   cleanup ''SQL Query: SELECT 1; SQL Query: SELECT 2;'' = Inr ''SELECT 1;'' \<and>
   strip (after_first ''SQL Query:'' ''SQL Query: SELECT 1; SQL Query: SELECT 2;'') =
     ''SELECT 1; SQL Query: SELECT 2;'' \<and>
   cleanup ''SQL Query: SELECT 1; SQL Query: SELECT 2;'' \<noteq>
     Inr (strip (after_first ''SQL Query:'' ''SQL Query: SELECT 1; SQL Query: SELECT 2;''))"
  by (simp add: cleanup_def str_split_def list_index_def strip_def is_space_def sublist_code)

text \<open>
  C4, amended. For every raw text that contains the marker \<^verbatim>\<open>SQL Query:\<close>, the cleanup
  returns the text between the first occurrence of the marker and the next occurrence after
  it (or the end of the text when there is none), trimmed of surrounding whitespace.
\<close>

theorem cleanup_marker_segment:
  assumes "sublist ''SQL Query:'' raw"
  shows "cleanup raw =
           Inr (strip (before_first ''SQL Query:'' (after_first ''SQL Query:'' raw)))"
  using assms by (rule cleanup_with_marker)

theorem cleanup_marker_segment_witness:
  "sublist ''SQL Query:'' ''Answer. SQL Query: SELECT 1; SQL Query: SELECT 2;'' \<and>
   cleanup ''Answer. SQL Query: SELECT 1; SQL Query: SELECT 2;'' = Inr ''SELECT 1;'' \<and>
   sublist ''SQL Query:'' ''SQL Query: SELECT 1;'' \<and>
   cleanup ''SQL Query: SELECT 1;'' = Inr ''SELECT 1;''"
proof -
  have h1: "sublist ''SQL Query:'' ''Answer. SQL Query: SELECT 1; SQL Query: SELECT 2;''"
    by (simp add: sublist_code)
  have h2: "sublist ''SQL Query:'' ''SQL Query: SELECT 1;''"
    by (simp add: sublist_code)
  show ?thesis
    using h1 h2 cleanup_marker_segment [OF h1] cleanup_marker_segment [OF h2]
    by (simp add: strip_def is_space_def)
qed

text \<open>
  C5, as stated, fails: a text without the marker comes back as it is, with its leading and
  trailing whitespace. \<^verbatim>\<open>strip\<close> is only called on the branch of the marker.
\<close>

theorem cleanup_no_marker_counterexample:
  "\<not> sublist ''SQL Query:'' '' SELECT 1; '' \<and>
   cleanup '' SELECT 1; '' = Inr '' SELECT 1; '' \<and>
   strip '' SELECT 1; '' = ''SELECT 1;'' \<and>
   cleanup '' SELECT 1; '' \<noteq> Inr (strip '' SELECT 1; '')"
  by (simp add: cleanup_def strip_def is_space_def sublist_code)

text \<open>
  C5, amended. For every raw text that does not contain the marker \<^verbatim>\<open>SQL Query:\<close>, the
  cleanup returns the text unchanged, without trimming it; in particular the cleanup of
  \<^verbatim>\<open>SELECT 1;\<close> is \<^verbatim>\<open>SELECT 1;\<close>.
\<close>

theorem cleanup_no_marker_unchanged:
  assumes "\<not> sublist ''SQL Query:'' raw"
  shows "cleanup raw = Inr raw"
  using assms by (rule cleanup_without_marker)

theorem cleanup_no_marker_unchanged_witness:
  "\<not> sublist ''SQL Query:'' ''SELECT 1;'' \<and> cleanup ''SELECT 1;'' = Inr ''SELECT 1;''"
proof -
  have h: "\<not> sublist ''SQL Query:'' ''SELECT 1;''"
    by (simp add: sublist_code)
  show ?thesis
    using h cleanup_no_marker_unchanged [OF h] by simp
qed

section \<open>The template registry\<close>

lemma template_low_fields:
  "template_low \<noteq> [] \<and> sublist ''{skills}'' template_low"
  by (simp add: template_low_def sublist_code)

lemma template_medium_fields:
  "template_medium \<noteq> [] \<and> sublist ''{skills}'' template_medium"
  by (simp add: template_medium_def sublist_code)

lemma template_intermediate_fields:
  "template_intermediate \<noteq> [] \<and> sublist ''{skills}'' template_intermediate \<and>
   sublist ''{experience}'' template_intermediate"
  by (simp add: template_intermediate_def sublist_code)

lemma template_high_fields:
  "template_high \<noteq> [] \<and> sublist ''{skills}'' template_high \<and>
   sublist ''{experience}'' template_high"
  by (simp add: template_high_def sublist_code)

lemma templates_unknown:
  "template_name \<notin> {''low'', ''medium'', ''intermediate'', ''high''} \<Longrightarrow>
   templates template_name = None"
  by (simp add: templates_def)

text \<open>
  C6. For every tier among low, medium, intermediate and high, the lookup in the registry is
  defined, and its text is not empty and contains the placeholder \<^verbatim>\<open>{skills}\<close>; the texts
  of intermediate and high contain the placeholder \<^verbatim>\<open>{experience}\<close> as well.
\<close>

theorem templates_defined:
  assumes "tier \<in> {''low'', ''medium'', ''intermediate'', ''high''}"
  shows "\<exists>t. templates tier = Some t \<and> t \<noteq> [] \<and> sublist ''{skills}'' t \<and>
           (tier \<in> {''intermediate'', ''high''} \<longrightarrow> sublist ''{experience}'' t)"
proof -
  from assms consider "tier = ''low''" | "tier = ''medium''" | "tier = ''intermediate''"
    | "tier = ''high''"
    by auto
  then show ?thesis
  proof cases
    case 1
    then show ?thesis using template_low_fields by (simp add: templates_def)
  next
    case 2
    then show ?thesis using template_medium_fields by (simp add: templates_def)
  next
    case 3
    then show ?thesis using template_intermediate_fields by (simp add: templates_def)
  next
    case 4
    then show ?thesis using template_high_fields by (simp add: templates_def)
  qed
qed

theorem templates_defined_witness:
  "''intermediate'' \<in> {''low'', ''medium'', ''intermediate'', ''high''} \<and>
   ''intermediate'' \<in> {''intermediate'', ''high''} \<and>
   templates ''intermediate'' = Some template_intermediate \<and>
   template_intermediate \<noteq> [] \<and>
   sublist ''{skills}'' template_intermediate \<and>
   sublist ''{experience}'' template_intermediate"
proof -
  have h: "''intermediate'' \<in> {''low'', ''medium'', ''intermediate'', ''high''}"
    by simp
  have t: "templates ''intermediate'' = Some template_intermediate"
    by (simp add: templates_def)
  show ?thesis
    using templates_defined [OF h] by (simp add: t)
qed

text \<open>
  C7. For every tier name other than low, medium, intermediate and high, the lookup in the
  registry finds nothing and \<^verbatim>\<open>generate_sql\<close> raises the \<^verbatim>\<open>KeyError\<close> of that name at
  once: the world is as it was, so no prompt was assembled, the chain was not called and no
  query was run.
\<close>

theorem generate_sql_unknown_tier:
  assumes "template_name \<notin> {''low'', ''medium'', ''intermediate'', ''high''}"
  shows "templates template_name = None \<and>
         generate_sql env template_name skills experience w = (Inl (KeyError template_name), w)"
  using assms by (simp add: generate_sql_def templates_def)

theorem generate_sql_unknown_tier_witness:
  "''expert'' \<notin> {''low'', ''medium'', ''intermediate'', ''high''} \<and>
   templates ''expert'' = None \<and>
   generate_sql fixed_env ''expert'' ''Python, Java, SQL'' None \<lparr>ext = 0, trace = []\<rparr> =
     (Inl (KeyError ''expert''), \<lparr>ext = 0, trace = []\<rparr>)"
proof -
  have h: "''expert'' \<notin> {''low'', ''medium'', ''intermediate'', ''high''}"
    by simp
  show ?thesis
    using h generate_sql_unknown_tier [OF h, of fixed_env "''Python, Java, SQL''" None
        "\<lparr>ext = 0, trace = []\<rparr>"]
    by simp
qed

section \<open>The pipeline\<close>

text \<open>Without a value for the experience, filling the templates of the two upper tiers stops
  at the field \<^verbatim>\<open>{experience}\<close>.\<close>

lemma format_high_missing:
  "format_template template_high [''skills'' \<mapsto> skills, ''schema'' \<mapsto> schema] =
     Inl (KeyError ''experience'')"
  by code_simp

lemma format_intermediate_missing:
  "format_template template_intermediate [''skills'' \<mapsto> skills, ''schema'' \<mapsto> schema] =
     Inl (KeyError ''experience'')"
  by code_simp

lemma repr_experience: "py_repr ''experience'' = [CHR 0x27] @ ''experience'' @ [CHR 0x27]"
  by (simp add: py_repr_def repr_char_def is_printable_def Let_def)

lemma not_throttling_experience: "\<not> is_throttling (KeyError ''experience'')"
  by (simp add: is_throttling_def repr_experience sublist_code)

lemma make_inputs_schema:
  "(make_inputs skills None)(''schema'' \<mapsto> schema) =
     [''skills'' \<mapsto> skills, ''schema'' \<mapsto> schema]"
  by (simp add: make_inputs_def)

text \<open>An empty experience is as good as none.\<close>

lemma make_inputs_empty: "make_inputs skills (Some []) = make_inputs skills None"
  by (simp add: make_inputs_def)

text \<open>When the chain fails on a template with an error that is not a throttling one,
  \<^verbatim>\<open>generate_sql\<close> fails with it after the one call.\<close>

lemma generate_sql_fatal:
  assumes "templates template_name = Some template"
    and "sql_chain env template (make_inputs skills experience) (ext w) = (Inl e, s1)"
    and "\<not> is_throttling e"
  shows "generate_sql env template_name skills experience w =
           (Inl e, emit [Invoke, LogError (''Error invoking Bedrock: '' @ str_of e)]
                     (w\<lparr>ext := s1\<rparr>))"
proof -
  have "invoke_bedrock_with_retry (sql_chain env template) (make_inputs skills experience) 5 1 w
     = (Inl e, emit [Invoke, LogError (''Error invoking Bedrock: '' @ str_of e)]
                 (w\<lparr>ext := s1\<rparr>))"
    by (rule invoke_reraises [where prompt_chain = "sql_chain env template", OF assms(2,3)])
      simp
  then show ?thesis
    by (simp add: generate_sql_def assms(1))
qed

text \<open>
  C8. For the tiers high and intermediate with no experience given, and a database that
  delivers its schema: filling the template fails with the \<^verbatim>\<open>KeyError\<close> of the field
  \<^verbatim>\<open>experience\<close>; the error is not a throttling one, so it leaves the retrying invoker after
  one call of the chain and no sleep, and the functions of both tiers raise it without
  running a query.
\<close>

theorem missing_experience_fails:
  assumes "db_get_table_info env (ext w) = (Inr schema, s1)"
  shows "let tr = [Invoke, LogError (''Error invoking Bedrock: '' @ str_of (KeyError ''experience''))];
             failed = (Inl (KeyError ''experience''), emit tr (w\<lparr>ext := s1\<rparr>))
         in format_template template_high ((make_inputs skills None)(''schema'' \<mapsto> schema)) =
              Inl (KeyError ''experience'') \<and>
            format_template template_intermediate
                ((make_inputs skills None)(''schema'' \<mapsto> schema)) =
              Inl (KeyError ''experience'') \<and>
            return_high_matched_jobs env skills None w = failed \<and>
            return_intermediate_matched_jobs env skills None w = failed \<and>
            calls_of tr = 1 \<and> sleeps_of tr = [] \<and> queries_of tr = []"
proof -
  have high: "sql_chain env template_high (make_inputs skills None) (ext w) =
      (Inl (KeyError ''experience''), s1)"
    by (simp add: sql_chain_def get_schema_def assms make_inputs_schema format_high_missing)
  have inter: "sql_chain env template_intermediate (make_inputs skills None) (ext w) =
      (Inl (KeyError ''experience''), s1)"
    by (simp add: sql_chain_def get_schema_def assms make_inputs_schema
        format_intermediate_missing)
  have t_high: "templates ''high'' = Some template_high"
    by (simp add: templates_def)
  have t_inter: "templates ''intermediate'' = Some template_intermediate"
    by (simp add: templates_def)
  have "return_high_matched_jobs env skills None w =
      (Inl (KeyError ''experience''),
       emit [Invoke, LogError (''Error invoking Bedrock: '' @ str_of (KeyError ''experience''))]
         (w\<lparr>ext := s1\<rparr>))"
    by (simp add: return_high_matched_jobs_def
        generate_sql_fatal [OF t_high high not_throttling_experience])
  moreover have "return_intermediate_matched_jobs env skills None w =
      (Inl (KeyError ''experience''),
       emit [Invoke, LogError (''Error invoking Bedrock: '' @ str_of (KeyError ''experience''))]
         (w\<lparr>ext := s1\<rparr>))"
    by (simp add: return_intermediate_matched_jobs_def
        generate_sql_fatal [OF t_inter inter not_throttling_experience])
  ultimately show ?thesis
    by (simp add: Let_def make_inputs_schema format_high_missing format_intermediate_missing)
qed

theorem missing_experience_fails_witness:
  "db_get_table_info fixed_env (ext \<lparr>ext = 0, trace = []\<rparr>) =
     (Inr ''CREATE TABLE job (job_id INTEGER)'', 1) \<and>
   return_high_matched_jobs fixed_env ''Python, Java, SQL'' None \<lparr>ext = 0, trace = []\<rparr> =
     (Inl (KeyError ''experience''),
      \<lparr>ext = 1, trace = [Invoke, LogError (''Error invoking Bedrock: '' @ [CHR 0x27] @ ''experience'' @ [CHR 0x27])]\<rparr>) \<and>
   return_intermediate_matched_jobs fixed_env ''Python, Java, SQL'' None
       \<lparr>ext = 0, trace = []\<rparr> =
     (Inl (KeyError ''experience''),
      \<lparr>ext = 1, trace = [Invoke, LogError (''Error invoking Bedrock: '' @ [CHR 0x27] @ ''experience'' @ [CHR 0x27])]\<rparr>)"
proof -
  have h: "db_get_table_info fixed_env (ext \<lparr>ext = 0::nat, trace = []\<rparr>) =
      (Inr ''CREATE TABLE job (job_id INTEGER)'', 1)"
    by (simp add: fixed_env_def)
  show ?thesis
    using h missing_experience_fails [OF h, of "''Python, Java, SQL''"]
    by (simp add: Let_def emit_def repr_experience)
qed

text \<open>The prompt of the tier low, for any schema and any skills.\<close>

lemma format_low:
  "format_template template_low [''skills'' \<mapsto> skills, ''schema'' \<mapsto> schema] =
     Inr ('' \<newline>'' @
          ''    Based on the table schema below, write a plain SQL query that would answer the user's question.\<newline>'' @
          ''    '' @
          schema @
          ''\<newline>'' @
          ''\<newline>'' @
          ''    Question: Given the SQL schema, return the job_ids from the job table where at least 3 of the provided skills '' @
          skills @
          '' Use the following format:\<newline>'' @
          ''    Example Query: SELECT j.job_id FROM job j JOIN application a ON j.job_id = a.job_id JOIN jobseeker js ON a.job_seeker_id = js.job_seeker_id WHERE string_to_array(js.skills, ',') && ARRAY['Python', 'Java', 'C', 'JavaScript', 'Spring Boot', 'Flask', 'TensorFlow', 'Bootstrap', 'ReactJS', 'Scikit-learn', 'Pandas', 'NumPy', 'Git', 'GitHub', 'JIRA', 'Photoshop', 'Cloud Technologies', 'Virtual and Augmented Reality', 'Blockchain', 'Prompt Engineering', 'IoT', 'Sports Analytics'];\<newline>'' @
          ''    Generate a very similar query with the given '' @
          skills @
          '' replacing the placeholder values. Note that string_to_array(js.skills, ',') part is Must needed because It need to convert to array (without any explanations or formatting make a cumpulsory single line query):\<newline>'' @
          ''    '')"
  by code_simp

lemma sublist_append_skip: "sublist xs zs \<Longrightarrow> sublist xs (ys @ zs)"
  by (simp add: sublist_append)

lemma format_low_contains_skills:
  "\<exists>prompt. format_template template_low [''skills'' \<mapsto> skills, ''schema'' \<mapsto> schema] =
      Inr prompt \<and> sublist skills prompt"
  by (subst format_low, rule exI, rule conjI [OF refl],
      intro sublist_append_rightI sublist_append_skip)

text \<open>
  C9. For the tier low, any skills (so for \<^verbatim>\<open>Python, Java, SQL\<close>) and a database that
  delivers its schema, the prompt is assembled and contains the skills as they are. When the
  model answers that prompt with a text, and the database answers the cleaned text with
  rows, \<^verbatim>\<open>return_low_matched_jobs\<close> returns those rows: the chain is called once, the query
  is logged, and the cleaned text is the one query that is run.
\<close>

theorem low_end_to_end:
  assumes "db_get_table_info env (ext w) = (Inr schema, s1)"
  shows "\<exists>prompt.
           format_template template_low ((make_inputs skills None)(''schema'' \<mapsto> schema)) =
             Inr prompt \<and>
           sublist skills prompt \<and>
           (llm_invoke env prompt s1 = (Inr raw, s2) \<longrightarrow>
            cleanup raw = Inr sql \<longrightarrow>
            db_run env sql s2 = (Inr rows, s3) \<longrightarrow>
            return_low_matched_jobs env skills w =
              (Inr rows,
               emit [Invoke, LogInfo (''Low matched query: '' @ sql), RunQuery sql]
                 (w\<lparr>ext := s3\<rparr>)))"
proof -
  obtain prompt where
    fmt: "format_template template_low [''skills'' \<mapsto> skills, ''schema'' \<mapsto> schema] = Inr prompt"
    and sub: "sublist skills prompt"
    using format_low_contains_skills by blast
  have "return_low_matched_jobs env skills w =
          (Inr rows,
           emit [Invoke, LogInfo (''Low matched query: '' @ sql), RunQuery sql]
             (w\<lparr>ext := s3\<rparr>))"
    if llm: "llm_invoke env prompt s1 = (Inr raw, s2)"
      and clean: "cleanup raw = Inr sql"
      and run: "db_run env sql s2 = (Inr rows, s3)"
  proof -
    have chain: "sql_chain env template_low (make_inputs skills None) (ext w) = (Inr raw, s2)"
      by (simp add: sql_chain_def get_schema_def assms make_inputs_schema fmt llm)
    have "invoke_bedrock_with_retry (sql_chain env template_low) (make_inputs skills None) 5 1 w
       = (Inr raw, emit [Invoke] (w\<lparr>ext := s2\<rparr>))"
      by (rule invoke_first_success [where prompt_chain = "sql_chain env template_low", OF chain])
        simp
    then have "generate_sql env ''low'' skills None w =
        (Inr sql, emit [Invoke] (w\<lparr>ext := s2\<rparr>))"
      by (simp add: generate_sql_def templates_def clean)
    then show ?thesis
      by (simp add: return_low_matched_jobs_def run_query_def emit_def run)
  qed
  with fmt sub show ?thesis
    by (auto simp: make_inputs_schema)
qed

theorem low_end_to_end_witness:
  "db_get_table_info fixed_env (ext \<lparr>ext = 0, trace = []\<rparr>) =
     (Inr ''CREATE TABLE job (job_id INTEGER)'', 1) \<and>
   cleanup ''SQL Query: SELECT j.job_id FROM job j;'' = Inr ''SELECT j.job_id FROM job j;'' \<and>
   db_run fixed_env ''SELECT j.job_id FROM job j;'' 2 = (Inr [3, 7], 3) \<and>
   return_low_matched_jobs fixed_env ''Python, Java, SQL'' \<lparr>ext = 0, trace = []\<rparr> =
     (Inr [3, 7],
      \<lparr>ext = 3,
       trace = [Invoke, LogInfo ''Low matched query: SELECT j.job_id FROM job j;'',
                RunQuery ''SELECT j.job_id FROM job j;'']\<rparr>)"
proof -
  have h: "db_get_table_info fixed_env (ext \<lparr>ext = 0::nat, trace = []\<rparr>) =
      (Inr ''CREATE TABLE job (job_id INTEGER)'', 1)"
    by (simp add: fixed_env_def)
  have clean: "cleanup ''SQL Query: SELECT j.job_id FROM job j;'' =
      Inr ''SELECT j.job_id FROM job j;''"
    by (simp add: cleanup_def str_split_def list_index_def strip_def is_space_def sublist_code)
  have run: "db_run fixed_env ''SELECT j.job_id FROM job j;'' 2 = (Inr [3, 7], 3)"
    by (simp add: fixed_env_def)
  have llm: "llm_invoke fixed_env prompt 1 = (Inr ''SQL Query: SELECT j.job_id FROM job j;'', 2)"
    for prompt
    by (simp add: fixed_env_def)
  show ?thesis
    using h clean run llm
      low_end_to_end [OF h, of "''Python, Java, SQL''"
        "''SQL Query: SELECT j.job_id FROM job j;''" 2 "''SELECT j.job_id FROM job j;''"
        "[3, 7]" 3]
    by (auto simp: emit_def)
qed

end
